theory Spec2Isabelle
  imports Complex_Main
begin

section \<open>Errors and calls to collaborators\<close>

text \<open>
  The exceptions that the methods of \<^verbatim>\<open>storage/devices.py\<close> raise are values.
  \<open>DeviceError msg dev\<close> carries the message and the device name, as the source's
  \<^verbatim>\<open>DeviceError(msg, self.name)\<close> does; \<open>DiskLabelCommitError\<close> is what the commit
  of a disk label raises, and \<open>CollaboratorError\<close> stands for whatever other exception a
  call into a collaborator (a format, the volume manager, parted) lets escape.
\<close>

datatype error =
    DeviceError string string
  | ValueError string
  | AttributeError string
  | ZeroDivisionError
  | DiskLabelCommitError
  | CollaboratorError string

text \<open>
  Calls that leave the device classes are recorded in a trace, in the order in which the
  code issues them. The setup of a parent is dispatched on the parent's class, so it is
  an event as well: \<open>ParentSetup p orig\<close> is \<^verbatim>\<open>parent.setup(orig=orig)\<close> and
  \<open>ParentFormatSetup p orig\<close> is \<^verbatim>\<open>parent.format.setup()\<close>, or
  \<^verbatim>\<open>parent.originalFormat.setup()\<close> when \<open>orig\<close> holds, for the parent named \<open>p\<close>.
\<close>

datatype event =
    ParentSetup string bool
  | ParentFormatSetup string bool
  | FormatTeardown string bool
  | UdevSettle
  | LvRemove string string
  | LvDeactivate string string
  | RemovePartition string
  | AddPartition string
  | CommitLabel string

text \<open>
  The environment says which calls raise: \<open>env e = Some err\<close> when the call \<open>e\<close> raises
  \<open>err\<close>, and \<open>None\<close> when it returns.
\<close>

type_synonym env = "event \<Rightarrow> error option"

text \<open>
  A sequence of calls stops at the first one that raises; the raising call is part of the
  trace, since it has been issued.
\<close>

fun issue :: "env \<Rightarrow> event list \<Rightarrow> event list \<Rightarrow> error option \<times> event list" where
  "issue env [] tr = (None, tr)"
| "issue env (e # es) tr =
     (case env e of
        Some err \<Rightarrow> (Some err, tr @ [e])
      | None \<Rightarrow> issue env es (tr @ [e]))"

section \<open>Device\<close>

text \<open>
  A parent is a reference to another device object. The methods modelled here read a
  parent's name, its child count and its \<open>exists\<close> flag, so a parent is kept as these
  three attributes. \<open>exists\<close> is tri-state in the source (\<^verbatim>\<open>None\<close>, \<^verbatim>\<open>False\<close>,
  \<^verbatim>\<open>True\<close>); only \<^verbatim>\<open>True\<close> is truthy.
\<close>

record parent =
  p_name :: string
  p_kids :: int
  p_exists :: "bool option"

record device =
  name :: string
  parents :: "parent list"
  kids :: int

definition truthy :: "bool option \<Rightarrow> bool" where
  "truthy b = (b = Some True)"

text \<open>\<^verbatim>\<open>Device.removeChild\<close>: \<^verbatim>\<open>self.kids -= 1\<close>.\<close>

definition removeChild :: "'a device_scheme \<Rightarrow> 'a device_scheme" where
  "removeChild d = d\<lparr>kids := kids d - 1\<rparr>"

text \<open>\<^verbatim>\<open>Device.addChild\<close>: \<^verbatim>\<open>self.kids += 1\<close>.\<close>

definition addChild :: "'a device_scheme \<Rightarrow> 'a device_scheme" where
  "addChild d = d\<lparr>kids := kids d + 1\<rparr>"

text \<open>\<^verbatim>\<open>Device.isleaf\<close>: \<^verbatim>\<open>self.kids == 0\<close>.\<close>

definition isleaf :: "'a device_scheme \<Rightarrow> bool" where
  "isleaf d = (kids d = 0)"

text \<open>A sequence of \<^verbatim>\<open>addChild\<close> and \<^verbatim>\<open>removeChild\<close> calls on one device.\<close>

datatype child_call = AddChild | RemoveChild

fun child_calls :: "child_call list \<Rightarrow> 'a device_scheme \<Rightarrow> 'a device_scheme" where
  "child_calls [] d = d"
| "child_calls (AddChild # cs) d = child_calls cs (addChild d)"
| "child_calls (RemoveChild # cs) d = child_calls cs (removeChild d)"

text \<open>A device as \<^verbatim>\<open>Device.__init__\<close> leaves it: no parents, no children.\<close>

definition new_device :: "string \<Rightarrow> device" where
  "new_device n = \<lparr>name = n, parents = [], kids = 0\<rparr>"

section \<open>StorageDevice\<close>

text \<open>
  Modelled from the spec: the format classes (\<^verbatim>\<open>storage/formats\<close>) are not among the
  sources. The spec's format interface has the lifecycle hooks and the attributes
  \<^verbatim>\<open>exists\<close>, \<^verbatim>\<open>status\<close>, \<^verbatim>\<open>resizable\<close>; the code also assigns
  \<^verbatim>\<open>device\<close>. A format is an object without a truth value of its own, hence truthy;
  the only falsy value of \<^verbatim>\<open>_format\<close> is \<^verbatim>\<open>None\<close>, which is \<open>None\<close> here.
  \<open>f_status\<close> is what the \<^verbatim>\<open>status\<close> property reports when it is read.
\<close>

record format =
  f_type :: string
  f_device :: string
  f_exists :: bool
  f_status :: bool
  f_resizable :: bool

text \<open>
  The attributes of a \<^verbatim>\<open>StorageDevice\<close> that the methods below read or assign.
  \<open>format\<close> is \<^verbatim>\<open>_format\<close>, \<open>size'\<close> is \<^verbatim>\<open>_size\<close>, \<open>targetSize\<close> is
  \<^verbatim>\<open>_targetSize\<close> and \<open>resizable'\<close> is the class attribute \<^verbatim>\<open>_resizable\<close>. Sizes
  are numbers of megabytes. \<open>partedDevice\<close> is what the property of that name evaluates
  to: \<open>None\<close> when there is no parted device, and otherwise the size that the parted
  device's \<^verbatim>\<open>getSize()\<close> reports.
\<close>

record storage_device = device +
  exists :: "bool option"
  sysfsPath :: string
  format :: "format option"
  originalFormat :: "format option"
  resizable' :: bool
  size' :: rat
  targetSize :: rat
  partedDevice :: "rat option"

text \<open>\<^verbatim>\<open>StorageDevice.path\<close>: \<^verbatim>\<open>"%s/%s" % (self._devDir, self.name)\<close>.\<close>

definition path :: "'a storage_device_scheme \<Rightarrow> string" where
  "path d = ''/dev'' @ ''/'' @ name d"

text \<open>
  \<^verbatim>\<open>StorageDevice._setFormat\<close>. A falsy argument is replaced by the format that
  \<^verbatim>\<open>getFormat(None, device=self.path, exists=self.exists)\<close> builds, which is the
  parameter \<open>dflt\<close>. The result is the exception raised, if any, and the device after
  the call.
\<close>

definition setFormat ::
  "format \<Rightarrow> 'a storage_device_scheme \<Rightarrow> format option \<Rightarrow>
     error option \<times> 'a storage_device_scheme" where
  "setFormat dflt d fmt =
     (let f = (case fmt of None \<Rightarrow> dflt | Some g \<Rightarrow> g) in
      if (case format d of None \<Rightarrow> False | Some cur \<Rightarrow> f_status cur)
      then (Some (DeviceError ''cannot replace active format'' (name d)), d)
      else (None, d\<lparr>format := Some (f\<lparr>f_device := path d\<rparr>)\<rparr>))"

text \<open>
  \<^verbatim>\<open>Device.setupParents\<close>: \<^verbatim>\<open>parent.setup(orig=orig)\<close> for every parent, in the
  order of the list.
\<close>

definition setupParents ::
  "env \<Rightarrow> bool \<Rightarrow> 'a device_scheme \<Rightarrow> event list \<Rightarrow> error option \<times> event list" where
  "setupParents env orig d tr = issue env (map (\<lambda>p. ParentSetup (p_name p) orig) (parents d)) tr"

text \<open>
  \<^verbatim>\<open>Device.createParents\<close>. The call \<^verbatim>\<open>parent.create()\<close> is commented out in the
  source ("recursive device creation disabled"): a parent that does not exist is an
  error, and no parent is created.
\<close>

fun createParents :: "string \<Rightarrow> parent list \<Rightarrow> error option" where
  "createParents n [] = None"
| "createParents n (p # ps) =
     (if \<not> truthy (p_exists p) then Some (DeviceError ''parent device does not exist'' n)
      else createParents n ps)"

text \<open>
  \<^verbatim>\<open>StorageDevice.setup\<close>: the device must exist; then the parents are set up, then
  the format of each parent.
\<close>

definition setup_device ::
  "env \<Rightarrow> bool \<Rightarrow> 'a storage_device_scheme \<Rightarrow> event list \<Rightarrow> error option \<times> event list" where
  "setup_device env orig d tr =
     (if \<not> truthy (exists d) then (Some (DeviceError ''device has not been created'' (name d)), tr)
      else (case setupParents env orig d tr of
              (Some e, tr') \<Rightarrow> (Some e, tr')
            | (None, tr') \<Rightarrow>
                issue env (map (\<lambda>p. ParentFormatSetup (p_name p) orig) (parents d)) tr'))"

text \<open>
  \<^verbatim>\<open>StorageDevice.create\<close>. The result is the exception raised, if any, the device
  after the call and the trace after the call.
\<close>

definition create ::
  "env \<Rightarrow> 'a storage_device_scheme \<Rightarrow> event list \<Rightarrow>
     error option \<times> 'a storage_device_scheme \<times> event list" where
  "create env d tr =
     (if truthy (exists d)
      then (Some (DeviceError ''device has already been created'' (name d)), d, tr)
      else (case createParents (name d) (parents d) of
              Some e \<Rightarrow> (Some e, d, tr)
            | None \<Rightarrow>
                (case setupParents env False d tr of
                   (Some e, tr') \<Rightarrow> (Some e, d, tr')
                 | (None, tr') \<Rightarrow>
                     (case setup_device env False (d\<lparr>exists := Some True\<rparr>) tr' of
                        (r, tr'') \<Rightarrow> (r, d\<lparr>exists := Some True\<rparr>, tr'')))))"

text \<open>
  \<^verbatim>\<open>StorageDevice.destroy\<close>. It removes no child from the parents: that line is
  commented out in the source.
\<close>

definition destroy ::
  "'a storage_device_scheme \<Rightarrow> error option \<times> 'a storage_device_scheme" where
  "destroy d =
     (if \<not> truthy (exists d) then (Some (DeviceError ''device has not been created'' (name d)), d)
      else if \<not> isleaf d then (Some (DeviceError ''Cannot destroy non-leaf device'' (name d)), d)
      else (None, d\<lparr>exists := Some False\<rparr>))"

text \<open>A storage device as a request: no format yet, no children.\<close>

definition new_storage_device :: "string \<Rightarrow> parent list \<Rightarrow> bool option \<Rightarrow> storage_device" where
  "new_storage_device n ps ex =
     \<lparr>name = n, parents = ps, kids = 0, exists = ex, sysfsPath = [], format = None,
      originalFormat = None, resizable' = False, size' = 0, targetSize = 0,
      partedDevice = None\<rparr>"

text \<open>The environment in which every call returns.\<close>

definition all_return :: env where
  "all_return e = None"

section \<open>Sequencing of calls\<close>

text \<open>
  \<open>andThen r k\<close> continues with \<open>k\<close> on the trace that \<open>r\<close> leaves, unless \<open>r\<close> raised.
\<close>

definition andThen ::
  "error option \<times> event list \<Rightarrow> (event list \<Rightarrow> error option \<times> event list) \<Rightarrow>
     error option \<times> event list" where
  "andThen r k = (case r of (Some e, tr) \<Rightarrow> (Some e, tr) | (None, tr) \<Rightarrow> k tr)"

section \<open>LVMLogicalVolumeDevice: teardown and destroy\<close>

text \<open>
  A logical volume keeps, of its volume group, what its methods read through
  \<^verbatim>\<open>self.vg\<close>: the group's name (\<open>vg_name\<close>) and the names of the group's parents, the
  physical volumes (\<open>vg_pvs\<close>). \<open>name\<close> is \<^verbatim>\<open>_name\<close>, the name of the volume inside
  the group.
\<close>

record lv = storage_device +
  vg_name :: string
  vg_pvs :: "string list"
  snapshots :: "string list"
  copies :: int
  logSize :: rat
  metaDataSize :: rat
  snapshotSpace :: rat

text \<open>\<^verbatim>\<open>LVMLogicalVolumeDevice.name\<close>: \<^verbatim>\<open>"%s-%s" % (self.vg.name, self._name)\<close>.\<close>

definition lv_name :: "'a lv_scheme \<Rightarrow> string" where
  "lv_name d = vg_name d @ ''-'' @ name d"

text \<open>
  The two format teardowns and the \<^verbatim>\<open>udev_settle()\<close> that
  \<^verbatim>\<open>LVMLogicalVolumeDevice.teardown\<close> runs on an active volume. Reading \<^verbatim>\<open>exists\<close>
  of a format that is \<^verbatim>\<open>None\<close> is an \<^verbatim>\<open>AttributeError\<close>.
\<close>

definition teardown_formats ::
  "env \<Rightarrow> string \<Rightarrow> format option \<Rightarrow> format option \<Rightarrow> event list \<Rightarrow>
     error option \<times> event list" where
  "teardown_formats env n orig fmt tr =
     (case orig of
        None \<Rightarrow> (Some (AttributeError ''exists''), tr)
      | Some f0 \<Rightarrow>
          andThen (if f_exists f0 then issue env [FormatTeardown n True] tr else (None, tr))
            (\<lambda>tr1. case fmt of
                None \<Rightarrow> (Some (AttributeError ''exists''), tr1)
              | Some f \<Rightarrow>
                  andThen (if f_exists f then issue env [FormatTeardown n False] tr1 else (None, tr1))
                    (\<lambda>tr2. issue env [UdevSettle] tr2)))"

text \<open>
  \<^verbatim>\<open>LVMLogicalVolumeDevice.teardown\<close> with \<^verbatim>\<open>recursive=None\<close>, as \<^verbatim>\<open>destroy\<close> calls
  it. \<^verbatim>\<open>DMDevice.status\<close> reads the live device-mapper table at each use, so it is a
  function of the calls issued so far.
\<close>

definition lv_teardown ::
  "env \<Rightarrow> (event list \<Rightarrow> bool) \<Rightarrow> 'a lv_scheme \<Rightarrow> event list \<Rightarrow> error option \<times> event list" where
  "lv_teardown env status d tr =
     (if \<not> truthy (exists d) then (Some (DeviceError ''device has not been created'' (lv_name d)), tr)
      else andThen
             (if status tr then teardown_formats env (lv_name d) (originalFormat d) (format d) tr
              else (None, tr))
             (\<lambda>tr1. if status tr1 then issue env [LvDeactivate (vg_name d) (name d)] tr1
                    else (None, tr1)))"

text \<open>
  \<^verbatim>\<open>LVMLogicalVolumeDevice.destroy\<close>, which thin pools and thin volumes inherit: the
  snapshots are removed, the volume is torn down, the group's physical volumes are set
  up, the volume is removed. The method does not read \<^verbatim>\<open>isleaf\<close>.
\<close>

definition lv_destroy ::
  "env \<Rightarrow> (event list \<Rightarrow> bool) \<Rightarrow> 'a lv_scheme \<Rightarrow> event list \<Rightarrow>
     error option \<times> 'a lv_scheme \<times> event list" where
  "lv_destroy env status d tr =
     (if \<not> truthy (exists d)
      then (Some (DeviceError ''device has not been created'' (lv_name d)), d, tr)
      else (case andThen (issue env (map (LvRemove (vg_name d)) (snapshots d)) tr)
                   (\<lambda>tr1. andThen (lv_teardown env status d tr1)
                   (\<lambda>tr2. andThen (issue env (map (\<lambda>p. ParentSetup p True) (vg_pvs d)) tr2)
                   (\<lambda>tr3. issue env [LvRemove (vg_name d) (name d)] tr3))) of
              (Some e, tr') \<Rightarrow> (Some e, d, tr')
            | (None, tr') \<Rightarrow> (None, d\<lparr>exists := Some False\<rparr>, tr')))"

text \<open>
  A thin pool \<open>pool00\<close> of the group \<open>vg0\<close>, which exists and has one thin volume as
  its child.
\<close>

definition pool_with_thin_lv :: lv where
  "pool_with_thin_lv =
     \<lparr>name = ''pool00'', parents = [\<lparr>p_name = ''vg0'', p_kids = 1, p_exists = Some True\<rparr>],
      kids = 1, exists = Some True, sysfsPath = [],
      format = Some \<lparr>f_type = [], f_device = ''/dev/mapper/vg0-pool00'', f_exists = False,
                      f_status = False, f_resizable = False\<rparr>,
      originalFormat = Some \<lparr>f_type = [], f_device = ''/dev/mapper/vg0-pool00'', f_exists = False,
                      f_status = False, f_resizable = False\<rparr>,
      resizable' = False, size' = 1000, targetSize = 1000, partedDevice = None,
      vg_name = ''vg0'', vg_pvs = [''sda2''], snapshots = [], copies = 1, logSize = 0,
      metaDataSize = 0, snapshotSpace = 0\<rparr>"

section \<open>PartitionDevice: destroy\<close>

text \<open>
  \<^verbatim>\<open>PartitionDevice.destroy\<close>. \<^verbatim>\<open>self.disk\<close> is the first parent, or \<^verbatim>\<open>None\<close>
  without parents. The partition is removed from the disk's original label and the label
  is committed; when the commit raises \<^verbatim>\<open>DiskLabelCommitError\<close> the partition is added
  back and the error is raised again.
\<close>

definition partition_destroy ::
  "env \<Rightarrow> 'a storage_device_scheme \<Rightarrow> event list \<Rightarrow>
     error option \<times> 'a storage_device_scheme \<times> event list" where
  "partition_destroy env d tr =
     (if \<not> truthy (exists d)
      then (Some (DeviceError ''device has not been created'' (name d)), d, tr)
      else if sysfsPath d = [] then (None, d, tr)
      else if \<not> isleaf d
      then (Some (DeviceError ''Cannot destroy non-leaf device'' (name d)), d, tr)
      else (case setupParents env True d tr of
              (Some e, tr1) \<Rightarrow> (Some e, d, tr1)
            | (None, tr1) \<Rightarrow>
                (case parents d of
                   [] \<Rightarrow> (Some (AttributeError ''originalFormat''), d, tr1)
                 | disk # _ \<Rightarrow>
                     (case issue env [RemovePartition (p_name disk)] tr1 of
                        (Some e, tr2) \<Rightarrow> (Some e, d, tr2)
                      | (None, tr2) \<Rightarrow>
                          (case env (CommitLabel (p_name disk)) of
                             None \<Rightarrow>
                               (None, d\<lparr>exists := Some False\<rparr>, tr2 @ [CommitLabel (p_name disk)])
                           | Some DiskLabelCommitError \<Rightarrow>
                               (case issue env [AddPartition (p_name disk)]
                                       (tr2 @ [CommitLabel (p_name disk)]) of
                                  (Some e', tr3) \<Rightarrow> (Some e', d, tr3)
                                | (None, tr3) \<Rightarrow> (Some DiskLabelCommitError, d, tr3))
                           | Some e \<Rightarrow> (Some e, d, tr2 @ [CommitLabel (p_name disk)]))))))"

section \<open>Numbers\<close>

text \<open>
  Sizes are Python numbers (\<^verbatim>\<open>int\<close>, \<^verbatim>\<open>long\<close> or \<^verbatim>\<open>float\<close>) of megabytes. They
  are rational numbers here, and the arithmetic on them is exact: the rounding of
  floating-point operations is not part of the model. \<^verbatim>\<open>long(x)\<close> truncates towards
  zero; \<^verbatim>\<open>x % y\<close> has the sign of \<open>y\<close>.
\<close>

definition py_long :: "rat \<Rightarrow> int" where
  "py_long x = (if 0 \<le> x then \<lfloor>x\<rfloor> else \<lceil>x\<rceil>)"

definition py_mod :: "rat \<Rightarrow> rat \<Rightarrow> rat" where
  "py_mod x y = x - y * of_int \<lfloor>x / y\<rfloor>"

section \<open>PartitionDevice: the geometry of a resize\<close>









section \<open>MDRaidArrayDevice: size\<close>

text \<open>
  The RAID levels that the size computation tells apart; \<open>OtherLevel\<close> is any other
  value of \<^verbatim>\<open>self.level\<close>. \<open>md_type\<close> is \<^verbatim>\<open>_type\<close>. \<open>devices\<close> lists, in the order
  of \<^verbatim>\<open>self.devices\<close>, what the \<^verbatim>\<open>size\<close> property of each member returns.
\<close>

datatype raid_level = RAID0 | RAID1 | RAID4 | RAID5 | RAID6 | RAID10 | OtherLevel

record md_array = storage_device +
  md_type :: string
  level :: raid_level
  memberDevices :: int
  metadataVersion :: string
  chunkSize :: rat
  devices :: "rat list"

text \<open>
  \<^verbatim>\<open>self.smallestMember.size\<close>: the first element of the members sorted by size.
  Without members \<^verbatim>\<open>smallestMember\<close> is \<^verbatim>\<open>None\<close>, and reading its size raises.
\<close>

definition smallestMemberSize :: "'a md_array_scheme \<Rightarrow> error + rat" where
  "smallestMemberSize md =
     (case sort (devices md) of [] \<Rightarrow> Inl (AttributeError ''size'') | s # _ \<Rightarrow> Inr s)"

text \<open>\<^verbatim>\<open>MDRaidArrayDevice.rawArraySize\<close>.\<close>

definition rawArraySize :: "'a md_array_scheme \<Rightarrow> error + rat" where
  "rawArraySize md =
     (case smallestMemberSize md of
        Inl e \<Rightarrow> Inl e
      | Inr s \<Rightarrow>
          Inr (case level md of
                 RAID0 \<Rightarrow> of_int (memberDevices md) * s
               | RAID1 \<Rightarrow> s
               | RAID4 \<Rightarrow> of_int (memberDevices md - 1) * s
               | RAID5 \<Rightarrow> of_int (memberDevices md - 1) * s
               | RAID6 \<Rightarrow> of_int (memberDevices md - 2) * s
               | RAID10 \<Rightarrow> (of_int (memberDevices md) / 2) * s
               | OtherLevel \<Rightarrow> s))"

text \<open>
  The loop of \<^verbatim>\<open>superBlockSize\<close>:
  \<^verbatim>\<open>while headroom << 10 > array_size: headroom >>= 1\<close>. It does not end when the
  array size is negative, since the headroom stays at zero then; \<open>None\<close> is that case.
\<close>

partial_function (option) headroom_loop :: "int \<Rightarrow> rat \<Rightarrow> int option" where
  "headroom_loop headroom array_size =
     (if of_int (push_bit 10 headroom) > array_size
      then headroom_loop (drop_bit 1 headroom) array_size
      else Some headroom)"

declare headroom_loop.simps [code]

text \<open>\<^verbatim>\<open>MDRaidArrayDevice.superBlockSize\<close>.\<close>

definition superBlockSize :: "'a md_array_scheme \<Rightarrow> (error + rat) option" where
  "superBlockSize md =
     (if metadataVersion md \<noteq> ''1.1'' \<and> metadataVersion md \<noteq> ''1.2'' then Some (Inr 2)
      else (case rawArraySize md of
              Inl e \<Rightarrow> Some (Inl e)
            | Inr array_size \<Rightarrow>
                (case headroom_loop 128 array_size of
                   None \<Rightarrow> None
                 | Some headroom \<Rightarrow> Some (Inr (of_int headroom)))))"

text \<open>
  The size of an array that does not exist yet, by level, from the number of members
  \<open>m\<close> and the smallest member size less the superblock, \<open>s\<close>: each branch but that of
  RAID1 cuts the size down to a multiple of the chunk size. An unknown level leaves the
  initial \<open>0\<close>.
\<close>

definition level_size :: "raid_level \<Rightarrow> int \<Rightarrow> rat \<Rightarrow> rat \<Rightarrow> error + rat" where
  "level_size l m chunk s =
     (let cut = (\<lambda>x. if chunk = 0 then Inl ZeroDivisionError else Inr (x - py_mod x chunk)) in
      case l of
        RAID0 \<Rightarrow> cut (of_int m * s)
      | RAID1 \<Rightarrow> Inr s
      | RAID4 \<Rightarrow> cut (of_int (m - 1) * s)
      | RAID5 \<Rightarrow> cut (of_int (m - 1) * s)
      | RAID6 \<Rightarrow> cut (of_int (m - 2) * s)
      | RAID10 \<Rightarrow> cut ((of_int m / 2) * s)
      | OtherLevel \<Rightarrow> Inr 0)"

text \<open>
  \<^verbatim>\<open>MDRaidArrayDevice.size\<close>. The result is \<open>None\<close> when the superblock loop does not
  end. The superblock size is computed before the test \<^verbatim>\<open>not self.exists or not
  self.partedDevice\<close>, which chooses between the computed and the probed size.
\<close>

definition md_size :: "'a md_array_scheme \<Rightarrow> (error + rat) option" where
  "md_size md =
     (if devices md = [] then Some (Inr 0)
      else if md_type md = ''mdbiosraidarray'' then Some (Inr (size' md))
      else (case smallestMemberSize md of
              Inl e \<Rightarrow> Some (Inl e)
            | Inr smallest \<Rightarrow>
                (case superBlockSize md of
                   None \<Rightarrow> None
                 | Some (Inl e) \<Rightarrow> Some (Inl e)
                 | Some (Inr sb) \<Rightarrow>
                     (case (if truthy (exists md) then partedDevice md else None) of
                        Some probed \<Rightarrow> Some (Inr probed)
                      | None \<Rightarrow>
                          (case level_size (level md) (memberDevices md) (chunkSize md)
                                  (smallest - sb) of
                             Inl e \<Rightarrow> Some (Inl e)
                           | Inr sz \<Rightarrow> Some (Inr (sz - 1)))))))"

text \<open>
  An array that is a request: three members of the given sizes, the constructor's chunk
  size of half a megabyte.
\<close>

definition new_md_array :: "raid_level \<Rightarrow> string \<Rightarrow> rat list \<Rightarrow> md_array" where
  "new_md_array l version sizes =
     \<lparr>name = ''md0'', parents = [], kids = 0, exists = None, sysfsPath = ''/devices/virtual/block/md0'',
      format = None, originalFormat = None, resizable' = False, size' = 0, targetSize = 0,
      partedDevice = None, md_type = ''mdarray'', level = l,
      memberDevices = int (length sizes), metadataVersion = version, chunkSize = 1 / 2,
      devices = sizes\<rparr>"

section \<open>StorageDevice: the size getter\<close>







section \<open>LVMVolumeGroupDevice: extents and free space\<close>

text \<open>
  \<^verbatim>\<open>LVMVolumeGroupDevice.align\<close> for an extent size of \<open>peSize\<close> megabytes:
  \<^verbatim>\<open>size *= 1024.0; pesize = self.peSize * 1024.0;
  return long((round(size / pesize) * pesize) / 1024)\<close>, where \<^verbatim>\<open>round\<close> is
  \<^verbatim>\<open>math.ceil\<close> when \<^verbatim>\<open>roundup\<close> is truthy and \<^verbatim>\<open>math.floor\<close> otherwise.
  \<open>align_value\<close> is the arithmetic; \<open>align\<close> adds the division by zero, which raises.
\<close>

definition align_value :: "rat \<Rightarrow> rat \<Rightarrow> bool \<Rightarrow> int" where
  "align_value peSize sz roundup =
     (let kb = sz * 1024; pesize = peSize * 1024 in
      py_long ((of_int (if roundup then \<lceil>kb / pesize\<rceil> else \<lfloor>kb / pesize\<rfloor>) * pesize) / 1024))"

definition align :: "rat \<Rightarrow> rat \<Rightarrow> bool \<Rightarrow> error + int" where
  "align peSize sz roundup =
     (if peSize * 1024 = 0 then Inl ZeroDivisionError else Inr (align_value peSize sz roundup))"

text \<open>
  A physical volume, as the group reads it: what its \<^verbatim>\<open>size\<close> property returns and
  \<^verbatim>\<open>format.peStart\<close>, the space reserved at its start. A volume group: its extent
  size, its physical volumes, the reservations and the snapshots without an origin
  volume. The logical volumes of the group, \<^verbatim>\<open>_lvs\<close>, are passed beside it, since the
  getter of their size changes them.
\<close>

record pv =
  pv_size :: rat
  peStart :: rat

record vg =
  peSize :: rat
  pvs :: "pv list"
  reserved_percent :: rat
  reserved_space :: rat
  voriginSnapshots :: "(string \<times> rat) list"










section \<open>LVMLogicalVolumeDevice: setting the size\<close>


text \<open>
  \<^verbatim>\<open>LVMThinLogicalVolumeDevice._setSize\<close> overrides the setter: the size is aligned
  and assigned, and the free space of the group is not read.
\<close>

definition thin_lv_setSize :: "vg \<Rightarrow> 'a lv_scheme \<Rightarrow> rat \<Rightarrow> error option \<times> 'a lv_scheme" where
  "thin_lv_setSize g self sz =
     (case align (peSize g) sz False of
        Inl e \<Rightarrow> (Some e, self)
      | Inr s1 \<Rightarrow>
          (case align (peSize g) (of_int s1) False of
             Inl e \<Rightarrow> (Some e, self)
           | Inr s2 \<Rightarrow> (None, self\<lparr>size' := of_int s2, targetSize := of_int s2\<rparr>)))"

text \<open>
  A group of one physical volume with 10000 MB of extents of 4 MB, and a plain logical
  volume of it that exists, is active and probed at 1000 MB, and whose size has been set
  to 2000 MB. Beside it a thin pool of 3000 MB that does not exist yet, and a thin
  volume that exists and is probed at 400 MB while its \<^verbatim>\<open>_size\<close> is 500 MB. The
  padding of a pool, for the examples, is one extent.
\<close>

definition vg0 :: vg where
  "vg0 = \<lparr>peSize = 4, pvs = [\<lparr>pv_size = 10001, peStart = 1\<rparr>], reserved_percent = 0,
           reserved_space = 0, voriginSnapshots = []\<rparr>"





section \<open>Child counts\<close>

lemma kids_child_calls:
  "kids (child_calls cs d) =
     kids d + int (count_list cs AddChild) - int (count_list cs RemoveChild)"
  by (induction cs d rule: child_calls.induct) (simp_all add: addChild_def removeChild_def)

text \<open>
  C5, as stated, fails: \<^verbatim>\<open>removeChild\<close> on a device without children leaves a child
  count of \<open>-1\<close>.
\<close>

theorem C5_removeChild_negative:
  "kids (child_calls [RemoveChild] (new_device ''sda'')) = - 1"
  by (simp add: removeChild_def new_device_def)

text \<open>
  C5, amended: \<^verbatim>\<open>addChild\<close> adds one to the child count and \<^verbatim>\<open>removeChild\<close> takes
  one away, with no lower bound. After any sequence of calls the count is the count
  before, plus the number of \<^verbatim>\<open>addChild\<close> calls, minus the number of
  \<^verbatim>\<open>removeChild\<close> calls; so it is non-negative exactly when the removals do not
  outnumber the earlier count plus the additions.
\<close>

theorem C5_child_count:
  "kids (addChild d) = kids d + 1 \<and>
   kids (removeChild d) = kids d - 1 \<and>
   kids (child_calls cs d) =
     kids d + int (count_list cs AddChild) - int (count_list cs RemoveChild) \<and>
   (0 \<le> kids (child_calls cs d)) =
     (int (count_list cs RemoveChild) \<le> kids d + int (count_list cs AddChild))"
  by (simp add: kids_child_calls addChild_def removeChild_def)

section \<open>StorageDevice: create, destroy and the format\<close>

lemma issue_all_return:
  "list_all (\<lambda>e. env e = None) es \<Longrightarrow> issue env es tr = (None, tr @ es)"
  by (induction es arbitrary: tr) simp_all

lemma createParents_None:
  "(createParents n ps = None) = list_all (\<lambda>p. truthy (p_exists p)) ps"
  by (induction ps) simp_all

lemma createParents_Some:
  "\<not> list_all (\<lambda>p. truthy (p_exists p)) ps \<Longrightarrow>
   createParents n ps = Some (DeviceError ''parent device does not exist'' n)"
  by (induction ps) simp_all

text \<open>
  C2, as stated, fails: \<^verbatim>\<open>create()\<close> creates no parent. On a device whose parent does
  not exist it raises \<^verbatim>\<open>DeviceError\<close>; the parent still does not exist afterwards, the
  device is not marked as existing and nothing has been set up.
\<close>

theorem C2_parent_not_created:
  "create all_return
     (new_storage_device ''sda1'' [\<lparr>p_name = ''sda'', p_kids = 1, p_exists = Some False\<rparr>] None) [] =
   (Some (DeviceError ''parent device does not exist'' ''sda1''),
    new_storage_device ''sda1'' [\<lparr>p_name = ''sda'', p_kids = 1, p_exists = Some False\<rparr>] None, [])"
  by (simp add: create_def new_storage_device_def truthy_def)

text \<open>
  C2, amended: \<^verbatim>\<open>StorageDevice.create()\<close> raises \<^verbatim>\<open>DeviceError\<close> if \<^verbatim>\<open>exists\<close> is
  already true. Otherwise it creates no parent: it raises \<^verbatim>\<open>DeviceError\<close> when some
  parent does not exist, changing nothing; and when all parents exist it sets up all
  parents, marks the device as existing and then runs its own setup, in that order. So a
  failure while the parents are set up leaves the device unmarked, a failure of the
  device's own setup leaves it marked, and when every call returns the device exists and
  the calls are the parents' setup (from \<^verbatim>\<open>create\<close>), the parents' setup again and
  the setup of the parents' formats (both from the device's \<^verbatim>\<open>setup\<close>).
\<close>

theorem C2_create:
  "(truthy (exists d) \<longrightarrow>
      create env d tr = (Some (DeviceError ''device has already been created'' (name d)), d, tr)) \<and>
   (\<not> truthy (exists d) \<and> \<not> list_all (\<lambda>p. truthy (p_exists p)) (parents d) \<longrightarrow>
      create env d tr = (Some (DeviceError ''parent device does not exist'' (name d)), d, tr)) \<and>
   (\<not> truthy (exists d) \<and> list_all (\<lambda>p. truthy (p_exists p)) (parents d) \<and>
    fst (setupParents env False d tr) \<noteq> None \<longrightarrow>
      create env d tr = (fst (setupParents env False d tr), d, snd (setupParents env False d tr))) \<and>
   (\<not> truthy (exists d) \<and> list_all (\<lambda>p. truthy (p_exists p)) (parents d) \<and>
    fst (setupParents env False d tr) = None \<longrightarrow>
      create env d tr =
        (fst (setup_device env False (d\<lparr>exists := Some True\<rparr>) (snd (setupParents env False d tr))),
         d\<lparr>exists := Some True\<rparr>,
         snd (setup_device env False (d\<lparr>exists := Some True\<rparr>) (snd (setupParents env False d tr))))) \<and>
   (\<not> truthy (exists d) \<and> list_all (\<lambda>p. truthy (p_exists p)) (parents d) \<and>
    (\<forall>e. env e = None) \<longrightarrow>
      create env d tr =
        (None, d\<lparr>exists := Some True\<rparr>,
         tr @ map (\<lambda>p. ParentSetup (p_name p) False) (parents d)
            @ map (\<lambda>p. ParentSetup (p_name p) False) (parents d)
            @ map (\<lambda>p. ParentFormatSetup (p_name p) False) (parents d)))"
proof -
  have a: "truthy (exists d) \<Longrightarrow>
      create env d tr = (Some (DeviceError ''device has already been created'' (name d)), d, tr)"
    by (simp add: create_def)
  have b: "\<not> truthy (exists d) \<Longrightarrow> \<not> list_all (\<lambda>p. truthy (p_exists p)) (parents d) \<Longrightarrow>
      create env d tr = (Some (DeviceError ''parent device does not exist'' (name d)), d, tr)"
    by (simp add: create_def createParents_Some)
  have c: "\<not> truthy (exists d) \<Longrightarrow> list_all (\<lambda>p. truthy (p_exists p)) (parents d) \<Longrightarrow>
    fst (setupParents env False d tr) \<noteq> None \<Longrightarrow>
      create env d tr = (fst (setupParents env False d tr), d, snd (setupParents env False d tr))"
    using createParents_None [of "name d" "parents d"]
    by (cases "setupParents env False d tr") (auto simp: create_def)
  have d: "\<not> truthy (exists d) \<Longrightarrow> list_all (\<lambda>p. truthy (p_exists p)) (parents d) \<Longrightarrow>
    fst (setupParents env False d tr) = None \<Longrightarrow>
      create env d tr =
        (fst (setup_device env False (d\<lparr>exists := Some True\<rparr>) (snd (setupParents env False d tr))),
         d\<lparr>exists := Some True\<rparr>,
         snd (setup_device env False (d\<lparr>exists := Some True\<rparr>) (snd (setupParents env False d tr))))"
    using createParents_None [of "name d" "parents d"]
    by (cases "setupParents env False d tr") (auto simp: create_def split: prod.splits)
  have e: "\<not> truthy (exists d) \<Longrightarrow> list_all (\<lambda>p. truthy (p_exists p)) (parents d) \<Longrightarrow>
    (\<forall>e. env e = None) \<Longrightarrow>
      create env d tr =
        (None, d\<lparr>exists := Some True\<rparr>,
         tr @ map (\<lambda>p. ParentSetup (p_name p) False) (parents d)
            @ map (\<lambda>p. ParentSetup (p_name p) False) (parents d)
            @ map (\<lambda>p. ParentFormatSetup (p_name p) False) (parents d))"
    using createParents_None [of "name d" "parents d"]
    by (simp add: create_def setupParents_def setup_device_def issue_all_return list_all_iff truthy_def)
  from a b c d e show ?thesis by blast
qed

theorem C2_create_witness:
  "create all_return
     (new_storage_device ''sda1'' [\<lparr>p_name = ''sda'', p_kids = 1, p_exists = Some True\<rparr>] (Some False)) [] =
   (None,
    new_storage_device ''sda1'' [\<lparr>p_name = ''sda'', p_kids = 1, p_exists = Some True\<rparr>] (Some True),
    [ParentSetup ''sda'' False, ParentSetup ''sda'' False, ParentFormatSetup ''sda'' False])"
  using C2_create [of "new_storage_device ''sda1'' [\<lparr>p_name = ''sda'', p_kids = 1, p_exists = Some True\<rparr>] (Some False)"
      all_return "[]"]
  by (simp add: new_storage_device_def truthy_def all_return_def)






text \<open>
  C6: on a StorageDevice whose current format reports \<^verbatim>\<open>status\<close> true, assigning a
  format, whatever it is, raises \<^verbatim>\<open>DeviceError\<close> and leaves the device, and with it
  the current format, as it was.
\<close>

theorem C6_setFormat_active:
  assumes "format d = Some cur" and "f_status cur"
  shows "setFormat dflt d fmt = (Some (DeviceError ''cannot replace active format'' (name d)), d) \<and>
         format (snd (setFormat dflt d fmt)) = Some cur"
  using assms by (simp add: setFormat_def Let_def)

theorem C6_setFormat_active_witness:
  "format (snd (setFormat
      \<lparr>f_type = [], f_device = [], f_exists = False, f_status = False, f_resizable = False\<rparr>
      ((new_storage_device ''sda1'' [] (Some True))
         \<lparr>format := Some \<lparr>f_type = ''ext4'', f_device = ''/dev/sda1'', f_exists = True,
                           f_status = True, f_resizable = True\<rparr>\<rparr>)
      (Some \<lparr>f_type = ''swap'', f_device = [], f_exists = False, f_status = False,
             f_resizable = False\<rparr>))) =
   Some \<lparr>f_type = ''ext4'', f_device = ''/dev/sda1'', f_exists = True,
         f_status = True, f_resizable = True\<rparr>"
  using C6_setFormat_active [of
      "(new_storage_device ''sda1'' [] (Some True))
         \<lparr>format := Some \<lparr>f_type = ''ext4'', f_device = ''/dev/sda1'', f_exists = True,
                           f_status = True, f_resizable = True\<rparr>\<rparr>"
      "\<lparr>f_type = ''ext4'', f_device = ''/dev/sda1'', f_exists = True,
         f_status = True, f_resizable = True\<rparr>"
      "\<lparr>f_type = [], f_device = [], f_exists = False, f_status = False, f_resizable = False\<rparr>"
      "Some \<lparr>f_type = ''swap'', f_device = [], f_exists = False, f_status = False,
             f_resizable = False\<rparr>"]
  by (simp add: new_storage_device_def)

section \<open>PartitionDevice: destroy without a sysfs path\<close>

text \<open>
  C10: on a PartitionDevice that exists and whose \<^verbatim>\<open>sysfsPath\<close> is empty,
  \<^verbatim>\<open>destroy()\<close> returns without an error, whatever the child count: the device is as
  before, with \<^verbatim>\<open>exists\<close> still true, and no call has been issued, so nothing has been
  removed from the disk label.
\<close>

theorem C10_partition_destroy_silent:
  assumes "truthy (exists d)" and "sysfsPath d = []"
  shows "partition_destroy env d tr = (None, d, tr) \<and>
         exists (fst (snd (partition_destroy env d tr))) = Some True"
  using assms by (simp add: partition_destroy_def truthy_def)

theorem C10_partition_destroy_silent_witness:
  "partition_destroy all_return ((new_storage_device ''sda1'' [] (Some True))\<lparr>kids := 2\<rparr>) [] =
     (None, (new_storage_device ''sda1'' [] (Some True))\<lparr>kids := 2\<rparr>, [])"
  using C10_partition_destroy_silent
    [of "(new_storage_device ''sda1'' [] (Some True))\<lparr>kids := 2\<rparr>" all_return "[]"]
  by (simp add: new_storage_device_def truthy_def)

section \<open>MDRaidArrayDevice: the size of a RAID1 array\<close>

lemma headroom_loop_ends:
  "0 \<le> h \<Longrightarrow> 0 \<le> a \<Longrightarrow> \<exists>h'. headroom_loop h a = Some h' \<and> 0 \<le> h' \<and> h' \<le> h"
proof (induction "nat h" arbitrary: h rule: less_induct)
  case less
  show ?case
  proof (cases "of_int (push_bit 10 h) > a")
    case False
    then show ?thesis using less.prems by (subst headroom_loop.simps) simp
  next
    case True
    with less.prems have hpos: "0 < h" by (cases "h = 0") (auto simp: push_bit_eq_mult)
    then have "nat (drop_bit 1 h) < nat h" "0 \<le> drop_bit 1 h" "drop_bit 1 h \<le> h"
      by (simp_all add: drop_bit_eq_div)
    with less.hyps [of "drop_bit 1 h"] less.prems
    obtain h' where "headroom_loop (drop_bit 1 h) a = Some h'" "0 \<le> h'" "h' \<le> drop_bit 1 h"
      by blast
    with True \<open>drop_bit 1 h \<le> h\<close> show ?thesis
      by (subst headroom_loop.simps) simp
  qed
qed

lemma headroom_small:
  assumes "0 \<le> a" "a < 1024"
  shows "headroom_loop 128 a = Some 0"
  using assms by (simp add: headroom_loop.simps push_bit_eq_mult drop_bit_eq_div)

lemma sort_hd_Min: "sort xs = s # ss \<Longrightarrow> s = Min (set xs)"
proof -
  assume a: "sort xs = s # ss"
  have "sorted (s # ss)" using a sorted_sort by metis
  moreover have "set (s # ss) = set xs" using a set_sort by metis
  ultimately show ?thesis
    by (metis List.finite_set Min_eqI list.set_intros(1) set_ConsD sorted_simps(2) order_refl)
qed

lemma smallest_Min:
  "devices md \<noteq> [] \<Longrightarrow> smallestMemberSize md = Inr (Min (set (devices md)))"
proof -
  assume "devices md \<noteq> []"
  then have "sort (devices md) \<noteq> []" by (metis length_sort length_0_conv)
  then obtain s ss where e: "sort (devices md) = s # ss" by (cases "sort (devices md)") auto
  with sort_hd_Min [OF e] show ?thesis by (simp add: smallestMemberSize_def)
qed

lemma raid1_superBlockSize:
  assumes "level md = RAID1" and "set (devices md) = {100, 150, 200}"
  shows "superBlockSize md =
           Some (Inr (if metadataVersion md = ''1.1'' \<or> metadataVersion md = ''1.2'' then 0 else 2))"
proof -
  from assms(2) have ne: "devices md \<noteq> []" by auto
  from assms(2) have m: "Min (set (devices md)) = 100" by simp
  have raw: "rawArraySize md = Inr 100"
    using assms(1) by (simp add: rawArraySize_def smallest_Min [OF ne] m)
  show ?thesis
    by (simp add: superBlockSize_def raw headroom_small)
qed

text \<open>
  C1, as stated, fails: for a RAID1 array that does not exist yet, with members of 100,
  150 and 200 MB, the size is not the smallest member size less the superblock size. With
  the default metadata version 1.1 the superblock size is 0 and the size is 99; with
  version 0.90 the superblock size is 2 and the size is 97.
\<close>

theorem C1_size_is_one_less:
  "md_size (new_md_array RAID1 ''1.1'' [100, 150, 200]) = Some (Inr 99) \<and>
   superBlockSize (new_md_array RAID1 ''1.1'' [100, 150, 200]) = Some (Inr 0) \<and>
   md_size (new_md_array RAID1 ''0.90'' [100, 150, 200]) = Some (Inr 97) \<and>
   superBlockSize (new_md_array RAID1 ''0.90'' [100, 150, 200]) = Some (Inr 2)"
  by (simp add: md_size_def superBlockSize_def rawArraySize_def smallestMemberSize_def
      level_size_def new_md_array_def truthy_def headroom_small)

text \<open>
  C1, amended: for an MDRaidArrayDevice at RAID level 1 that does not exist yet (and is
  not a BIOS RAID set), with three member devices of sizes 100, 150 and 200 MB, the
  superblock size is defined and the \<^verbatim>\<open>size\<close> property equals 100 MB minus the
  superblock size minus one more megabyte, which the code takes off "to account for
  unexpected metadata".
\<close>

theorem C1_raid1_size:
  assumes "level md = RAID1" and "\<not> truthy (exists md)"
    and "md_type md \<noteq> ''mdbiosraidarray''" and "set (devices md) = {100, 150, 200}"
  shows "\<exists>sb. superBlockSize md = Some (Inr sb) \<and> md_size md = Some (Inr (100 - sb - 1))"
proof -
  from assms(4) have ne: "devices md \<noteq> []" by auto
  from assms(4) have m: "Min (set (devices md)) = 100" by simp
  let ?sb = "if metadataVersion md = ''1.1'' \<or> metadataVersion md = ''1.2'' then 0 else (2::rat)"
  have sb: "superBlockSize md = Some (Inr ?sb)"
    by (rule raid1_superBlockSize [OF assms(1) assms(4)])
  have "md_size md = Some (Inr (100 - ?sb - 1))"
    using assms(1-3) ne
    by (simp add: md_size_def smallest_Min [OF ne] m sb level_size_def del: One_nat_def)
  with sb show ?thesis by blast
qed

theorem C1_raid1_size_witness:
  "\<exists>sb. superBlockSize (new_md_array RAID1 ''1.1'' [100, 150, 200]) = Some (Inr sb) \<and>
        md_size (new_md_array RAID1 ''1.1'' [100, 150, 200]) = Some (Inr (100 - sb - 1))"
  by (rule C1_raid1_size) (simp_all add: new_md_array_def truthy_def)

(* C3 *)

section \<open>Destroying a device that has children\<close>

lemma lv_teardown_kids: "lv_teardown env status (d\<lparr>kids := k\<rparr>) tr = lv_teardown env status d tr"
  by (simp add: lv_teardown_def lv_name_def cong: if_cong)

lemma lv_destroy_kids:
  "lv_destroy env status (d\<lparr>kids := k\<rparr>) tr =
     (case lv_destroy env status d tr of (r, d', tr') \<Rightarrow> (r, d'\<lparr>kids := k\<rparr>, tr'))"
  by (simp add: lv_destroy_def lv_teardown_kids lv_name_def split: prod.splits option.splits cong: if_cong)

lemma issue_None: "(\<forall>e. env e = None) \<Longrightarrow> issue env es tr = (None, tr @ es)"
  by (induction es arbitrary: tr) simp_all

lemma teardown_formats_returns:
  assumes "\<forall>e. env e = None" and "orig = Some f0" and "fmt = Some f"
  shows "\<exists>es. teardown_formats env n orig fmt tr = (None, tr @ es)"
  using assms by (simp add: teardown_formats_def andThen_def issue_None)

lemma lv_teardown_returns:
  assumes "\<forall>e. env e = None" and "originalFormat d = Some f0" and "format d = Some f"
    and "truthy (exists d)"
  shows "\<exists>es. lv_teardown env status d tr = (None, tr @ es)"
proof -
  obtain es where t: "teardown_formats env (lv_name d) (originalFormat d) (format d) tr = (None, tr @ es)"
    using teardown_formats_returns [OF assms(1-3)] by blast
  show ?thesis
    using assms(1,4) by (auto simp: lv_teardown_def andThen_def issue_None t)
qed

lemma lv_destroy_returns:
  assumes "\<forall>e. env e = None" and "originalFormat d = Some f0" and "format d = Some f"
    and "truthy (exists d)"
  shows "\<exists>es. lv_destroy env status d tr =
           (None, d\<lparr>exists := Some False\<rparr>, tr @ es @ [LvRemove (vg_name d) (name d)])"
proof -
  let ?tr1 = "tr @ map (LvRemove (vg_name d)) (snapshots d)"
  obtain es where t: "lv_teardown env status d ?tr1 = (None, ?tr1 @ es)"
    using lv_teardown_returns [OF assms] by blast
  have "lv_destroy env status d tr =
          (None, d\<lparr>exists := Some False\<rparr>,
           tr @ (map (LvRemove (vg_name d)) (snapshots d) @ es @
                 map (\<lambda>p. ParentSetup p True) (vg_pvs d)) @ [LvRemove (vg_name d) (name d)])"
    using assms(1,4) by (simp add: lv_destroy_def andThen_def issue_None t)
  then show ?thesis by blast
qed

text \<open>
  C3, as stated, fails: a thin pool is a logical volume, and
  \<^verbatim>\<open>LVMLogicalVolumeDevice.destroy\<close> does not look at the child count. On a pool that
  exists and still has a thin volume as its child, \<^verbatim>\<open>destroy()\<close> returns without an
  error, having issued \<^verbatim>\<open>lvm.lvremove\<close> for the pool.
\<close>

theorem C3_pool_destroyed:
  "\<not> isleaf pool_with_thin_lv \<and>
   lv_destroy all_return (\<lambda>tr. False) pool_with_thin_lv [] =
     (None, pool_with_thin_lv\<lparr>exists := Some False\<rparr>,
      [ParentSetup ''sda2'' True, LvRemove ''vg0'' ''pool00''])"
  by (simp add: lv_destroy_def lv_teardown_def pool_with_thin_lv_def isleaf_def truthy_def
      all_return_def andThen_def)

text \<open>
  C3, amended: \<^verbatim>\<open>destroy()\<close> as \<^verbatim>\<open>StorageDevice\<close> defines it raises
  \<^verbatim>\<open>DeviceError\<close> whenever \<^verbatim>\<open>isleaf\<close> is false, and changes nothing. The
  \<^verbatim>\<open>destroy()\<close> of a logical volume, which a thin pool with a thin volume as its
  child runs, does not depend on the child count: its outcome and its calls are the same
  for every child count, and on a volume that exists, with every call returning, it
  issues the removal of the volume and marks the volume as not existing.
\<close>

theorem C3_destroy_leaf_check:
  "(\<not> isleaf d \<longrightarrow>
      (fst (destroy d) = Some (DeviceError ''device has not been created'' (name d)) \<or>
       fst (destroy d) = Some (DeviceError ''Cannot destroy non-leaf device'' (name d))) \<and>
      snd (destroy d) = d) \<and>
   lv_destroy env status (l\<lparr>kids := k\<rparr>) tr =
     (case lv_destroy env status l tr of (r, l', tr') \<Rightarrow> (r, l'\<lparr>kids := k\<rparr>, tr')) \<and>
   (truthy (exists l) \<and> originalFormat l \<noteq> None \<and> format l \<noteq> None \<and>
    (\<forall>e. env e = None) \<longrightarrow>
      fst (lv_destroy env status l tr) = None \<and>
      exists (fst (snd (lv_destroy env status l tr))) = Some False \<and>
      LvRemove (vg_name l) (name l) \<in> set (snd (snd (lv_destroy env status l tr))))"
proof -
  have a: "\<not> isleaf d \<Longrightarrow>
      (fst (destroy d) = Some (DeviceError ''device has not been created'' (name d)) \<or>
       fst (destroy d) = Some (DeviceError ''Cannot destroy non-leaf device'' (name d))) \<and>
      snd (destroy d) = d"
    by (simp add: destroy_def)
  have c: "truthy (exists l) \<Longrightarrow> originalFormat l \<noteq> None \<Longrightarrow> format l \<noteq> None \<Longrightarrow>
      (\<forall>e. env e = None) \<Longrightarrow>
      fst (lv_destroy env status l tr) = None \<and>
      exists (fst (snd (lv_destroy env status l tr))) = Some False \<and>
      LvRemove (vg_name l) (name l) \<in> set (snd (snd (lv_destroy env status l tr)))"
  proof -
    assume h: "truthy (exists l)" "originalFormat l \<noteq> None" "format l \<noteq> None" "\<forall>e. env e = None"
    then obtain f0 f where "originalFormat l = Some f0" "format l = Some f" by auto
    from lv_destroy_returns [OF h(4) this h(1), of status tr]
    obtain es where "lv_destroy env status l tr =
           (None, l\<lparr>exists := Some False\<rparr>, tr @ es @ [LvRemove (vg_name l) (name l)])"
      by blast
    then show ?thesis by simp
  qed
  from a c lv_destroy_kids [of env status k l tr] show ?thesis by blast
qed

(* C10 *)

theorem C3_destroy_leaf_check_witness:
  "fst (destroy ((new_storage_device ''sda'' [] (Some True))\<lparr>kids := 1\<rparr>)) =
     Some (DeviceError ''Cannot destroy non-leaf device'' ''sda'') \<and>
   fst (lv_destroy all_return (\<lambda>tr. False) pool_with_thin_lv []) = None \<and>
   LvRemove ''vg0'' ''pool00'' \<in> set (snd (snd (lv_destroy all_return (\<lambda>tr. False) pool_with_thin_lv [])))"
  using C3_destroy_leaf_check [where d = "(new_storage_device ''sda'' [] (Some True))\<lparr>kids := 1\<rparr>"
      and env = all_return and status = "\<lambda>tr. False" and l = pool_with_thin_lv and k = 1
      and tr = "[]"]
  by (simp add: new_storage_device_def pool_with_thin_lv_def isleaf_def truthy_def all_return_def
      destroy_def)

section \<open>LVMVolumeGroupDevice: alignment to extents\<close>


lemma align_value_down: "align_value pe x False = py_long (of_int \<lfloor>x / pe\<rfloor> * pe)"
  by (simp add: align_value_def Let_def)




section \<open>PartitionDevice: the end sector of a resize\<close>








section \<open>LVMLogicalVolumeDevice: a size that does not fit\<close>


















text \<open>
  The setter of a thin volume, for comparison: with a non-zero extent size it always
  returns, whatever the free space of the group, and sets both sizes to the same value.
\<close>

lemma thin_lv_setSize_returns:
  assumes "peSize g \<noteq> 0"
  shows "fst (thin_lv_setSize g self sz) = None \<and>
         size' (snd (thin_lv_setSize g self sz)) = targetSize (snd (thin_lv_setSize g self sz))"
  using assms by (simp add: thin_lv_setSize_def align_def)

end
